theory Spec2Isabelle
  imports Complex_Main
begin

section \<open>JavaScript numbers\<close>

text \<open>
  The TypeScript sources compute on \<open>number\<close>. Finite values are modelled as exact
  reals: rounding, overflow to infinity and the sign of zero are not modelled. Where the
  code divides by a value that can be zero the quotient is a \<open>jsnum\<close>, so that the
  non-finite results of JavaScript (\<open>Infinity\<close>, \<open>-Infinity\<close>, \<open>NaN\<close>) are
  values of the model instead of HOL's \<open>x / 0 = 0\<close>.
\<close>

datatype jsnum = Fin real | PosInf | NegInf | NaN

definition js_div :: "real \<Rightarrow> real \<Rightarrow> jsnum" where
  "js_div a b =
     (if b \<noteq> 0 then Fin (a / b)
      else if 0 < a then PosInf
      else if a < 0 then NegInf
      else NaN)"

fun js_neg :: "jsnum \<Rightarrow> jsnum" where
  "js_neg (Fin a) = Fin (- a)"
| "js_neg PosInf = NegInf"
| "js_neg NegInf = PosInf"
| "js_neg NaN = NaN"

fun js_abs :: "jsnum \<Rightarrow> jsnum" where
  "js_abs (Fin a) = Fin \<bar>a\<bar>"
| "js_abs PosInf = PosInf"
| "js_abs NegInf = PosInf"
| "js_abs NaN = NaN"

fun js_add :: "jsnum \<Rightarrow> jsnum \<Rightarrow> jsnum" where
  "js_add (Fin a) (Fin b) = Fin (a + b)"
| "js_add NaN _ = NaN"
| "js_add _ NaN = NaN"
| "js_add PosInf NegInf = NaN"
| "js_add NegInf PosInf = NaN"
| "js_add PosInf _ = PosInf"
| "js_add NegInf _ = NegInf"
| "js_add _ PosInf = PosInf"
| "js_add _ NegInf = NegInf"

definition js_sub :: "jsnum \<Rightarrow> jsnum \<Rightarrow> jsnum" where
  "js_sub a b = js_add a (js_neg b)"

text \<open>The sign of a product with an infinite factor; zero times infinity is \<open>NaN\<close>.\<close>

definition js_inf_of_sign :: "real \<Rightarrow> jsnum" where
  "js_inf_of_sign s = (if 0 < s then PosInf else if s < 0 then NegInf else NaN)"

fun js_mul :: "jsnum \<Rightarrow> jsnum \<Rightarrow> jsnum" where
  "js_mul (Fin a) (Fin b) = Fin (a * b)"
| "js_mul NaN _ = NaN"
| "js_mul _ NaN = NaN"
| "js_mul PosInf (Fin b) = js_inf_of_sign b"
| "js_mul NegInf (Fin b) = js_inf_of_sign (- b)"
| "js_mul (Fin a) PosInf = js_inf_of_sign a"
| "js_mul (Fin a) NegInf = js_inf_of_sign (- a)"
| "js_mul PosInf PosInf = PosInf"
| "js_mul NegInf NegInf = PosInf"
| "js_mul PosInf NegInf = NegInf"
| "js_mul NegInf PosInf = NegInf"

fun js_divide :: "jsnum \<Rightarrow> jsnum \<Rightarrow> jsnum" where
  "js_divide (Fin a) (Fin b) = js_div a b"
| "js_divide NaN _ = NaN"
| "js_divide _ NaN = NaN"
| "js_divide (Fin a) PosInf = Fin 0"
| "js_divide (Fin a) NegInf = Fin 0"
| "js_divide PosInf (Fin b) = (if 0 \<le> b then PosInf else NegInf)"
| "js_divide NegInf (Fin b) = (if 0 \<le> b then NegInf else PosInf)"
| "js_divide PosInf PosInf = NaN"
| "js_divide PosInf NegInf = NaN"
| "js_divide NegInf PosInf = NaN"
| "js_divide NegInf NegInf = NaN"

fun js_sqrt :: "jsnum \<Rightarrow> jsnum" where
  "js_sqrt (Fin a) = (if a < 0 then NaN else Fin (sqrt a))"
| "js_sqrt PosInf = PosInf"
| "js_sqrt NegInf = NaN"
| "js_sqrt NaN = NaN"

text \<open>Comparisons; every comparison with \<open>NaN\<close> is false.\<close>

fun js_lt :: "jsnum \<Rightarrow> jsnum \<Rightarrow> bool" where
  "js_lt (Fin a) (Fin b) = (a < b)"
| "js_lt NaN _ = False"
| "js_lt _ NaN = False"
| "js_lt NegInf NegInf = False"
| "js_lt NegInf _ = True"
| "js_lt PosInf _ = False"
| "js_lt (Fin a) PosInf = True"
| "js_lt (Fin a) NegInf = False"


definition js_gt :: "jsnum \<Rightarrow> jsnum \<Rightarrow> bool" where
  "js_gt a b = js_lt b a"


text \<open>
  \<open>x || d\<close> on an optional number: \<open>undefined\<close> and \<open>0\<close> are falsy, every other
  finite number is truthy.
\<close>

definition js_or :: "real option \<Rightarrow> real \<Rightarrow> real" where
  "js_or x d = (case x of None \<Rightarrow> d | Some v \<Rightarrow> if v = 0 then d else v)"

section \<open>Data model\<close>

text \<open>
  The rows of the tables \<open>orders\<close>, \<open>holdings\<close> and \<open>positions\<close> of
  \<open>database/init/01-init.sql\<close> with the columns the services read or write; the
  bookkeeping columns \<open>created_at\<close> and \<open>updated_at\<close> (and the surrogate id of a
  holding) are left out. A \<open>Date\<close> is a number of milliseconds, and a UUID is a natural
  number: \<open>uuidv4()\<close> is modelled by \<open>fresh_uuid\<close>, which returns an id that no row
  of the table carries. An instrument is a string of at most 50 characters, as the route
  schemas require, so that the bound of \<open>VARCHAR(50)\<close> is never reached.
\<close>

datatype side = BUY | SELL
datatype order_status = PENDING | FILLED | CANCELLED
datatype position_status = OPEN | CLOSED
datatype error = ValidationError string | NotFoundError string | Error string

type_synonym uuid = nat
type_synonym date = nat

record order =
  o_id :: uuid
  o_instrument :: string
  o_side :: side
  o_quantity :: real
  o_price :: real
  o_status :: order_status
  o_filled_quantity :: real
  o_filled_price :: "real option"
  o_order_time :: date
  o_filled_time :: "date option"

record holding =
  h_instrument :: string
  h_quantity :: real
  h_average_price :: real
  h_total_value :: real
  h_unrealized_pnl :: real
  h_realized_pnl :: real

record position =
  p_id :: uuid
  p_instrument :: string
  p_side :: side
  p_entry_price :: real
  p_exit_price :: "real option"
  p_quantity :: real
  p_status :: position_status
  p_pnl :: real
  p_entry_time :: date
  p_exit_time :: "date option"
  p_strategy_id :: "uuid option"

record database =
  orders :: "order list"
  holdings :: "string \<Rightarrow> holding option"
  positions :: "position list"

record CreateOrderRequest =
  r_instrument :: string
  r_side :: side
  r_quantity :: real
  r_price :: real
  r_order_time :: "date option"

definition fresh_uuid :: "uuid list \<Rightarrow> uuid" where
  "fresh_uuid ids = Suc (fold max ids 0)"


section \<open>Column types\<close>

text \<open>
  Every price, quantity, value and P&L column of the three tables is \<open>DECIMAL(18, 8)\<close>.
  A number written to such a column is rounded to 8 decimals, half away from zero, and the
  statement raises \<open>numeric field overflow\<close> when the rounded absolute value reaches
  \<open>10^10\<close>. A statement that raises changes nothing, and the error propagates through
  the repository method to the caller. The row a statement returns carries the rounded
  values.
\<close>

definition round8 :: "real \<Rightarrow> real" where
  "round8 x =
     (if 0 \<le> x then real_of_int \<lfloor>x * 100000000 + 1 / 2\<rfloor> / 100000000
      else - (real_of_int \<lfloor>- x * 100000000 + 1 / 2\<rfloor> / 100000000))"

definition decimal_18_8 :: "real \<Rightarrow> error + real" where
  "decimal_18_8 x =
     (if \<bar>round8 x\<bar> < 10000000000 then Inr (round8 x)
      else Inl (Error ''numeric field overflow''))"

text \<open>The values a \<open>DECIMAL(18, 8)\<close> column can hold are those the coercion leaves alone.\<close>

definition is_decimal :: "real \<Rightarrow> bool" where
  "is_decimal x = (decimal_18_8 x = Inr x)"

text \<open>
  A \<open>Date\<close> of more than \<open>8.64e15\<close> milliseconds is an invalid date, which no
  \<open>TIMESTAMP WITH TIME ZONE\<close> column accepts.
\<close>

definition timestamptz :: "date \<Rightarrow> error + date" where
  "timestamptz t =
     (if t \<le> 8640000000000000 then Inr t
      else Inl (Error ''invalid input syntax for type timestamp with time zone''))"

text \<open>Sequencing of steps that can raise: the first error ends the statement.\<close>

definition db_bind :: "error + 'a \<Rightarrow> ('a \<Rightarrow> error + 'b) \<Rightarrow> error + 'b" where
  "db_bind m f = (case m of Inl e \<Rightarrow> Inl e | Inr x \<Rightarrow> f x)"

section \<open>OrderRepository\<close>

definition createOrder_repo ::
  "database \<Rightarrow> CreateOrderRequest \<Rightarrow> date \<Rightarrow> error + (order \<times> database)" where
  "createOrder_repo db orderData now =
     db_bind (decimal_18_8 (r_quantity orderData)) (\<lambda>quantity.
     db_bind (decimal_18_8 (r_price orderData)) (\<lambda>price.
     db_bind (timestamptz (case r_order_time orderData of None \<Rightarrow> now | Some t \<Rightarrow> t)) (\<lambda>orderTime.
       (let row = \<lparr> o_id = fresh_uuid (map o_id (orders db)),
                    o_instrument = r_instrument orderData,
                    o_side = r_side orderData,
                    o_quantity = quantity,
                    o_price = price,
                    o_status = PENDING,
                    o_filled_quantity = 0,
                    o_filled_price = None,
                    o_order_time = orderTime,
                    o_filled_time = None \<rparr>
        in Inr (row, db\<lparr>orders := orders db @ [row]\<rparr>)))))"

definition getOrderById :: "database \<Rightarrow> uuid \<Rightarrow> order option" where
  "getOrderById db ident = find (\<lambda>r. o_id r = ident) (orders db)"

text \<open>
  \<open>UPDATE orders SET ... WHERE id = $1 RETURNING *\<close> with the assignments \<open>upd\<close>: the
  rows of that id are replaced and the first of them is returned.
\<close>

definition update_orders ::
  "database \<Rightarrow> uuid \<Rightarrow> (order \<Rightarrow> order) \<Rightarrow> order option \<times> database" where
  "update_orders db ident upd =
     (let rows = map (\<lambda>r. if o_id r = ident then upd r else r) (orders db)
      in (find (\<lambda>r. o_id r = ident) rows, db\<lparr>orders := rows\<rparr>))"

text \<open>
  \<open>updateOrderStatus\<close>: the status is always set; the fill columns only for
  \<open>FILLED\<close> with a defined quantity, and the fill price only when it is defined too.
  The fill quantity and price are parameters of the statement and are coerced to their
  columns.
\<close>

definition updateOrderStatus ::
  "database \<Rightarrow> uuid \<Rightarrow> order_status \<Rightarrow> real option \<Rightarrow> real option \<Rightarrow> date
     \<Rightarrow> error + (order option \<times> database)" where
  "updateOrderStatus db ident status filledQuantity filledPrice now =
     (case filledQuantity of
        Some q \<Rightarrow>
          if status = FILLED then
            db_bind (decimal_18_8 q) (\<lambda>q'.
              (case filledPrice of
                 Some p \<Rightarrow>
                   db_bind (decimal_18_8 p) (\<lambda>p'.
                     Inr (update_orders db ident
                            (\<lambda>r. r\<lparr>o_status := status, o_filled_quantity := q',
                                    o_filled_time := Some now, o_filled_price := Some p'\<rparr>)))
               | None \<Rightarrow>
                   Inr (update_orders db ident
                          (\<lambda>r. r\<lparr>o_status := status, o_filled_quantity := q',
                                  o_filled_time := Some now\<rparr>))))
          else Inr (update_orders db ident (\<lambda>r. r\<lparr>o_status := status\<rparr>))
      | None \<Rightarrow> Inr (update_orders db ident (\<lambda>r. r\<lparr>o_status := status\<rparr>)))"

section \<open>HoldingRepository\<close>

definition getHolding :: "database \<Rightarrow> string \<Rightarrow> holding option" where
  "getHolding db instrument = holdings db instrument"

text \<open>
  \<open>updateHolding\<close> is an upsert on the unique instrument. The proposed row is built
  first, with every value coerced to its column: the quantity, the average price, the
  total value \<open>quantity * averagePrice\<close> computed by the caller, and the realized P&L.
  A new row takes these values (and the column default 0 for the unrealized P&L); on
  conflict the quantity, average price and total value are replaced and the realized P&L
  is the stored one plus the proposed one, coerced to the column again.
\<close>

definition updateHolding ::
  "database \<Rightarrow> string \<Rightarrow> real \<Rightarrow> real \<Rightarrow> real \<Rightarrow> error + (holding \<times> database)" where
  "updateHolding db instrument quantity averagePrice realizedPnl =
     (let totalValue = quantity * averagePrice
      in db_bind (decimal_18_8 quantity) (\<lambda>q.
         db_bind (decimal_18_8 averagePrice) (\<lambda>a.
         db_bind (decimal_18_8 totalValue) (\<lambda>tv.
         db_bind (decimal_18_8 realizedPnl) (\<lambda>r.
           (case holdings db instrument of
              None \<Rightarrow>
                (let row = \<lparr> h_instrument = instrument, h_quantity = q, h_average_price = a,
                               h_total_value = tv, h_unrealized_pnl = 0, h_realized_pnl = r \<rparr>
                 in Inr (row, db\<lparr>holdings := (holdings db)(instrument \<mapsto> row)\<rparr>))
            | Some h \<Rightarrow>
                db_bind (decimal_18_8 (h_realized_pnl h + r)) (\<lambda>r'.
                  (let row = h\<lparr> h_quantity := q, h_average_price := a, h_total_value := tv,
                                 h_realized_pnl := r' \<rparr>
                   in Inr (row, db\<lparr>holdings := (holdings db)(instrument \<mapsto> row)\<rparr>)))))))))"

section \<open>PositionRepository\<close>

definition createPosition ::
  "database \<Rightarrow> string \<Rightarrow> side \<Rightarrow> real \<Rightarrow> real \<Rightarrow> date \<Rightarrow> uuid option
     \<Rightarrow> error + (position \<times> database)" where
  "createPosition db instrument sd entryPrice quantity entryTime strategyId =
     db_bind (decimal_18_8 entryPrice) (\<lambda>entryPrice'.
     db_bind (decimal_18_8 quantity) (\<lambda>quantity'.
     db_bind (timestamptz entryTime) (\<lambda>entryTime'.
       (let row = \<lparr> p_id = fresh_uuid (map p_id (positions db)),
                    p_instrument = instrument,
                    p_side = sd,
                    p_entry_price = entryPrice',
                    p_exit_price = None,
                    p_quantity = quantity',
                    p_status = OPEN,
                    p_pnl = 0,
                    p_entry_time = entryTime',
                    p_exit_time = None,
                    p_strategy_id = strategyId \<rparr>
        in Inr (row, db\<lparr>positions := positions db @ [row]\<rparr>)))))"

definition getPositionById :: "database \<Rightarrow> uuid \<Rightarrow> position option" where
  "getPositionById db ident = find (\<lambda>r. p_id r = ident) (positions db)"

definition calculatePnl :: "position \<Rightarrow> real \<Rightarrow> real" where
  "calculatePnl pos currentPrice =
     (let priceDiff = (if p_side pos = BUY then currentPrice - p_entry_price pos
                       else p_entry_price pos - currentPrice)
      in priceDiff * p_quantity pos)"

text \<open>
  \<open>closePosition\<close> of the repository returns \<open>null\<close> before any statement when the
  row is missing or CLOSED. Otherwise the P&L is computed from the row and the exit
  price, and the \<open>UPDATE\<close> coerces the exit price, the exit time and the P&L to their
  columns.
\<close>

definition closePosition_repo ::
  "database \<Rightarrow> uuid \<Rightarrow> real \<Rightarrow> date \<Rightarrow> error + (position option \<times> database)" where
  "closePosition_repo db ident exitPrice exitTime =
     (case getPositionById db ident of
        None \<Rightarrow> Inr (None, db)
      | Some pos \<Rightarrow>
          if p_status pos = CLOSED then Inr (None, db)
          else
            (let pnl = calculatePnl pos exitPrice
             in db_bind (decimal_18_8 exitPrice) (\<lambda>exitPrice'.
                db_bind (timestamptz exitTime) (\<lambda>exitTime'.
                db_bind (decimal_18_8 pnl) (\<lambda>pnl'.
                  (let rows = map (\<lambda>r. if p_id r = ident
                                        then r\<lparr> p_status := CLOSED, p_exit_price := Some exitPrice',
                                                p_exit_time := Some exitTime', p_pnl := pnl' \<rparr>
                                        else r) (positions db)
                   in Inr (find (\<lambda>r. p_id r = ident) rows, db\<lparr>positions := rows\<rparr>)))))))"

section \<open>PaperTradingService\<close>

text \<open>
  A service operation returns its result, \<open>Inl\<close> for a thrown error, together with the
  database as the call leaves it: the statements that ran before a throw stay in effect.
  The clock read by \<open>new Date()\<close> and \<open>NOW()\<close> is the argument \<open>now\<close>.
  \<open>validateOrderData\<close> keeps the checks that a typed request can fail: the empty
  instrument and the non-positive quantity or price.
\<close>

definition validateOrderData :: "CreateOrderRequest \<Rightarrow> error option" where
  "validateOrderData orderData =
     (if r_instrument orderData = [] then Some (ValidationError ''Invalid instrument'')
      else if r_quantity orderData \<le> 0 then Some (ValidationError ''Quantity must be a positive number'')
      else if r_price orderData \<le> 0 then Some (ValidationError ''Price must be a positive number'')
      else None)"

text \<open>
  The signed quantity and the price of a fill, as \<open>updateHoldingFromOrder\<close> reads them
  from the filled order: \<open>order.side === 'BUY' ? order.filled_quantity : -order.filled_quantity\<close>
  and \<open>order.filled_price || order.price\<close>.
\<close>

definition orderQuantity :: "order \<Rightarrow> real" where
  "orderQuantity ord = (if o_side ord = BUY then o_filled_quantity ord else - o_filled_quantity ord)"

definition orderPrice :: "order \<Rightarrow> real" where
  "orderPrice ord = js_or (o_filled_price ord) (o_price ord)"

text \<open>
  The new quantity, the new average price and the realized P&L that
  \<open>updateHoldingFromOrder\<close> computes before it calls \<open>updateHolding\<close>. In the
  same-direction branch the new quantity is a sum of two non-zero numbers of the same
  sign, so the division is never by zero.
\<close>

definition holdingUpdate :: "holding option \<Rightarrow> order \<Rightarrow> real \<times> real \<times> real" where
  "holdingUpdate existingHolding ord =
     (let orderQuantity = orderQuantity ord;
          orderPrice = orderPrice ord
      in (case existingHolding of
            None \<Rightarrow> (orderQuantity, orderPrice, 0)
          | Some h \<Rightarrow>
              if h_quantity h = 0 then (orderQuantity, orderPrice, 0)
              else
                (let currentQuantity = h_quantity h;
                     currentAveragePrice = h_average_price h
                 in if (0 < currentQuantity \<and> 0 < orderQuantity) \<or> (currentQuantity < 0 \<and> orderQuantity < 0)
                    then
                      (let totalValue = currentQuantity * currentAveragePrice + orderQuantity * orderPrice;
                           newQ = currentQuantity + orderQuantity
                       in (newQ, totalValue / newQ, 0))
                    else
                      (let closingQuantity = min \<bar>currentQuantity\<bar> \<bar>orderQuantity\<bar>;
                           realized = (if 0 < currentQuantity
                                       then closingQuantity * (orderPrice - currentAveragePrice)
                                       else closingQuantity * (currentAveragePrice - orderPrice));
                           newQ = currentQuantity + orderQuantity
                       in if newQ = 0 then (newQ, 0, realized)
                          else (newQ,
                                (if \<bar>newQ\<bar> = \<bar>orderQuantity\<bar> then orderPrice else currentAveragePrice),
                                realized)))))"

definition updateHoldingFromOrder :: "database \<Rightarrow> order \<Rightarrow> error + database" where
  "updateHoldingFromOrder db ord =
     (let existingHolding = getHolding db (o_instrument ord);
          (newQuantity, newAveragePrice, realizedPnL) = holdingUpdate existingHolding ord
      in db_bind (updateHolding db (o_instrument ord) newQuantity newAveragePrice realizedPnL)
           (\<lambda>(row, db'). Inr db'))"

definition createPositionFromOrder :: "database \<Rightarrow> order \<Rightarrow> error + database" where
  "createPositionFromOrder db ord =
     db_bind (createPosition db (o_instrument ord) (o_side ord)
                (js_or (o_filled_price ord) (o_price ord))
                (o_filled_quantity ord)
                (case o_filled_time ord of Some t \<Rightarrow> t | None \<Rightarrow> o_order_time ord)
                None)
       (\<lambda>(row, db'). Inr db')"

definition fillOrder ::
  "database \<Rightarrow> uuid \<Rightarrow> real option \<Rightarrow> real option \<Rightarrow> date \<Rightarrow> (error + order) \<times> database" where
  "fillOrder db orderId filledQuantity filledPrice now =
     (case getOrderById db orderId of
        None \<Rightarrow> (Inl (NotFoundError ''Order not found''), db)
      | Some ord \<Rightarrow>
          if o_status ord \<noteq> PENDING then (Inl (ValidationError ''Order is not in pending status''), db)
          else
            (let finalFilledQuantity = js_or filledQuantity (o_quantity ord);
                 finalFilledPrice = js_or filledPrice (o_price ord)
             in (case updateOrderStatus db orderId FILLED (Some finalFilledQuantity)
                         (Some finalFilledPrice) now of
                   Inl e \<Rightarrow> (Inl e, db)
                 | Inr (None, db1) \<Rightarrow> (Inl (Error ''Failed to update order''), db1)
                 | Inr (Some uo, db1) \<Rightarrow>
                     (case updateHoldingFromOrder db1 uo of
                        Inl e \<Rightarrow> (Inl e, db1)
                      | Inr db2 \<Rightarrow>
                          (case createPositionFromOrder db2 uo of
                             Inl e \<Rightarrow> (Inl e, db2)
                           | Inr db3 \<Rightarrow> (Inr uo, db3))))))"

text \<open>
  \<open>createOrder\<close> returns what \<open>getOrderById\<close> finds after the fill (the source casts
  the possibly missing row to \<open>Order\<close>), hence the \<open>order option\<close>.
\<close>

definition createOrder ::
  "database \<Rightarrow> CreateOrderRequest \<Rightarrow> date \<Rightarrow> (error + order option) \<times> database" where
  "createOrder db orderData now =
     (case validateOrderData orderData of
        Some e \<Rightarrow> (Inl e, db)
      | None \<Rightarrow>
          (case createOrder_repo db orderData now of
             Inl e \<Rightarrow> (Inl e, db)
           | Inr (ord, db1) \<Rightarrow>
               (case fillOrder db1 (o_id ord) (Some (r_quantity orderData))
                       (Some (r_price orderData)) now of
                  (Inl e, db2) \<Rightarrow> (Inl e, db2)
                | (Inr _, db2) \<Rightarrow> (Inr (getOrderById db2 (o_id ord)), db2))))"

definition updateHoldingFromPositionClosure :: "database \<Rightarrow> position \<Rightarrow> error + database" where
  "updateHoldingFromPositionClosure db pos =
     (case getHolding db (p_instrument pos) of
        None \<Rightarrow> Inr db
      | Some h \<Rightarrow>
          db_bind (updateHolding db (p_instrument pos) (h_quantity h) (h_average_price h) (p_pnl pos))
            (\<lambda>(row, db'). Inr db'))"

definition closePosition :: "database \<Rightarrow> uuid \<Rightarrow> real \<Rightarrow> date \<Rightarrow> (error + position) \<times> database" where
  "closePosition db positionId exitPrice now =
     (case closePosition_repo db positionId exitPrice now of
        Inl e \<Rightarrow> (Inl e, db)
      | Inr (None, db1) \<Rightarrow> (Inl (NotFoundError ''Position not found or already closed''), db1)
      | Inr (Some pos, db1) \<Rightarrow>
          (case updateHoldingFromPositionClosure db1 pos of
             Inl e \<Rightarrow> (Inl e, db1)
           | Inr db2 \<Rightarrow> (Inr pos, db2)))"

section \<open>HistoricalDataService: the OI interpretation\<close>

record candle =
  c_id :: nat
  c_instrument :: string
  c_timeframe :: string
  c_epoch_time :: nat
  c_open_price :: real
  c_high_price :: real
  c_low_price :: real
  c_close_price :: real
  c_volume :: real
  c_open_interest :: real

datatype direction = UP | DOWN | FLAT
datatype OIInterpretation = LONG_BUILDUP | SHORT_BUILDUP | LONG_UNWINDING | SHORT_COVERING | INCONCLUSIVE
datatype confidence_level = HIGH | MEDIUM | LOW

record OIAnalysis =
  a_interpretation :: OIInterpretation
  a_priceChange :: real
  a_oiChange :: real
  a_priceDirection :: direction
  a_oiDirection :: direction
  a_confidence :: confidence_level

definition PRICE_THRESHOLD :: real where
  "PRICE_THRESHOLD = 1 / 10"

definition OI_THRESHOLD :: real where
  "OI_THRESHOLD = 1"

definition priceChangePercent :: "candle \<Rightarrow> candle \<Rightarrow> jsnum" where
  "priceChangePercent previousCandle currentCandle =
     js_mul (js_div (c_close_price currentCandle - c_close_price previousCandle)
                    (c_close_price previousCandle)) (Fin 100)"

definition oiChangePercent :: "candle \<Rightarrow> candle \<Rightarrow> jsnum" where
  "oiChangePercent previousCandle currentCandle =
     (if 0 < c_open_interest previousCandle
      then js_mul (js_div (c_open_interest currentCandle - c_open_interest previousCandle)
                          (c_open_interest previousCandle)) (Fin 100)
      else Fin 0)"

text \<open>The confidence expression that the four definite branches of the source repeat.\<close>

definition confidence_of :: "jsnum \<Rightarrow> jsnum \<Rightarrow> confidence_level" where
  "confidence_of pcp ocp =
     (if js_gt (js_abs pcp) (Fin (1 / 2)) \<and> js_gt (js_abs ocp) (Fin 2) then HIGH
      else if js_gt (js_abs pcp) (Fin (1 / 5)) \<and> js_gt (js_abs ocp) (Fin 1) then MEDIUM
      else LOW)"

definition calculateOIInterpretation :: "candle \<Rightarrow> candle \<Rightarrow> OIAnalysis" where
  "calculateOIInterpretation previousCandle currentCandle =
     (let pc = c_close_price currentCandle - c_close_price previousCandle;
          oc = c_open_interest currentCandle - c_open_interest previousCandle;
          pcp = priceChangePercent previousCandle currentCandle;
          ocp = oiChangePercent previousCandle currentCandle;
          pd = (if js_lt (js_abs pcp) (Fin PRICE_THRESHOLD) then FLAT
                else if 0 < pc then UP else DOWN);
          od = (if js_lt (js_abs ocp) (Fin OI_THRESHOLD) then FLAT
                else if 0 < oc then UP else DOWN);
          (interp, conf) =
            (if pd = UP \<and> od = UP then (LONG_BUILDUP, confidence_of pcp ocp)
             else if pd = DOWN \<and> od = UP then (SHORT_BUILDUP, confidence_of pcp ocp)
             else if pd = DOWN \<and> od = DOWN then (LONG_UNWINDING, confidence_of pcp ocp)
             else if pd = UP \<and> od = DOWN then (SHORT_COVERING, confidence_of pcp ocp)
             else (INCONCLUSIVE, LOW))
      in \<lparr> a_interpretation = interp, a_priceChange = pc, a_oiChange = oc,
           a_priceDirection = pd, a_oiDirection = od, a_confidence = conf \<rparr>)"

text \<open>
  The classifier in the words of the specification, on exact reals, for a previous bar
  with a positive close: the percentage changes, the directions with their fixed
  thresholds, and the cross of the two directions.
\<close>

definition price_change_pct :: "candle \<Rightarrow> candle \<Rightarrow> real" where
  "price_change_pct previous current =
     (c_close_price current - c_close_price previous) / c_close_price previous * 100"

definition oi_change_pct :: "candle \<Rightarrow> candle \<Rightarrow> real" where
  "oi_change_pct previous current =
     (if 0 < c_open_interest previous
      then (c_open_interest current - c_open_interest previous) / c_open_interest previous * 100
      else 0)"

definition spec_direction :: "real \<Rightarrow> real \<Rightarrow> direction" where
  "spec_direction threshold pct =
     (if \<bar>pct\<bar> < threshold then FLAT else if 0 < pct then UP else DOWN)"

fun spec_interpretation :: "direction \<Rightarrow> direction \<Rightarrow> OIInterpretation" where
  "spec_interpretation UP UP = LONG_BUILDUP"
| "spec_interpretation DOWN UP = SHORT_BUILDUP"
| "spec_interpretation DOWN DOWN = LONG_UNWINDING"
| "spec_interpretation UP DOWN = SHORT_COVERING"
| "spec_interpretation _ _ = INCONCLUSIVE"

section \<open>StrategyService: the backtest\<close>









record metrics =
  totalTrades :: nat
  winningTrades :: nat
  totalPnl :: real
  maxDrawdown :: real
  winRate :: real
  sharpeRatio :: jsnum

text \<open>
  The body of the drawdown loop on \<open>(maxDrawdown, peak, runningPnl)\<close>. The divisor
  \<open>peak || 1\<close> is \<open>1\<close> exactly when the peak is \<open>0\<close>, so it is never zero.
\<close>

definition drawdown_step :: "real \<times> real \<times> real \<Rightarrow> position \<Rightarrow> real \<times> real \<times> real" where
  "drawdown_step acc pos =
     (let (maxDrawdown0, peak0, runningPnl0) = acc;
          runningPnl = runningPnl0 + p_pnl pos;
          peak = (if peak0 < runningPnl then runningPnl else peak0);
          drawdown = (peak - runningPnl) / (if peak = 0 then 1 else peak)
      in (max maxDrawdown0 drawdown, peak, runningPnl))"

definition calculatePerformanceMetrics :: "position list \<Rightarrow> candle list \<Rightarrow> metrics" where
  "calculatePerformanceMetrics positions0 candles =
     (let closedPositions = filter (\<lambda>p. p_status p = CLOSED) positions0;
          totalTrades = length closedPositions;
          winningTrades = length (filter (\<lambda>p. 0 < p_pnl p) closedPositions);
          totalPnl = foldl (\<lambda>sum p. sum + p_pnl p) 0 closedPositions;
          winRate = (if 0 < totalTrades then real winningTrades / real totalTrades else 0);
          returns = map (\<lambda>p. js_div (p_pnl p) (p_entry_price p * p_quantity p)) closedPositions;
          avgReturn = (if 0 < length returns
                       then js_divide (foldl js_add (Fin 0) returns) (Fin (real (length returns)))
                       else Fin 0);
          returnVariance =
            (if 0 < length returns
             then js_divide
                    (foldl (\<lambda>sum ret. js_add sum (js_mul (js_sub ret avgReturn) (js_sub ret avgReturn)))
                       (Fin 0) returns)
                    (Fin (real (length returns)))
             else Fin 0);
          returnStdDev = js_sqrt returnVariance;
          sharpeRatio = (if js_gt returnStdDev (Fin 0) then js_divide avgReturn returnStdDev else Fin 0);
          (maxDrawdown, peak, runningPnl) = foldl drawdown_step (0, 0, 0) closedPositions
      in \<lparr> totalTrades = totalTrades, winningTrades = winningTrades, totalPnl = totalPnl,
           maxDrawdown = maxDrawdown, winRate = winRate, sharpeRatio = sharpeRatio \<rparr>)"







text \<open>
  The invariant of the loop after the iteration at index \<open>i\<close>, used for the runs in
  which no buy signal starts from equal averages: every position of the array but the last is
  CLOSED; and while the run has not thrown, a last position that is OPEN in the array is
  stored as OPEN under its id, and when the short average is below the long one no
  position of the array is OPEN.
\<close>

definition all_closed :: "position list \<Rightarrow> bool" where
  "all_closed ps = list_all (\<lambda>p. p_status p = CLOSED) ps"





section \<open>Replaying fills\<close>

text \<open>
  A fill on the ledger is an order that \<open>createOrder\<close> validates, stores and fills at
  once at its own quantity and price. \<open>apply_fills\<close> replays a sequence of fills on one
  instrument and stops at the first error, as the exception would, with the database as
  the failed call leaves it.
\<close>

record fill =
  f_side :: side
  f_quantity :: real
  f_price :: real
  f_time :: date

definition fill_request :: "string \<Rightarrow> fill \<Rightarrow> CreateOrderRequest" where
  "fill_request instrument f =
     \<lparr> r_instrument = instrument, r_side = f_side f, r_quantity = f_quantity f,
       r_price = f_price f, r_order_time = None \<rparr>"





text \<open>The holding of an instrument after a holding update, when that has not raised.\<close>

definition holding_after :: "error + database \<Rightarrow> string \<Rightarrow> holding option" where
  "holding_after res instrument =
     (case res of Inl e \<Rightarrow> None | Inr db \<Rightarrow> getHolding db instrument)"

section \<open>Example states\<close>

definition empty_db :: database where
  "empty_db = \<lparr> orders = [], holdings = Map.empty, positions = [] \<rparr>"

definition buy :: "real \<Rightarrow> real \<Rightarrow> fill" where
  "buy q p = \<lparr> f_side = BUY, f_quantity = q, f_price = p, f_time = 0 \<rparr>"

definition sell :: "real \<Rightarrow> real \<Rightarrow> fill" where
  "sell q p = \<lparr> f_side = SELL, f_quantity = q, f_price = p, f_time = 0 \<rparr>"

text \<open>A long holding of 10 at an average price of 100, and a filled SELL order.\<close>

definition long_10_at_100 :: database where
  "long_10_at_100 =
     \<lparr> orders = [],
       holdings = [''NIFTY'' \<mapsto> \<lparr> h_instrument = ''NIFTY'', h_quantity = 10, h_average_price = 100,
                                     h_total_value = 1000, h_unrealized_pnl = 0, h_realized_pnl = 0 \<rparr>],
       positions = [] \<rparr>"

definition filled_sell :: "real \<Rightarrow> real \<Rightarrow> order" where
  "filled_sell q p =
     \<lparr> o_id = 1, o_instrument = ''NIFTY'', o_side = SELL, o_quantity = q, o_price = p,
       o_status = FILLED, o_filled_quantity = q, o_filled_price = Some p, o_order_time = 0,
       o_filled_time = Some 0 \<rparr>"

text \<open>
  A position as a backtest run leaves it: created through \<open>createPosition\<close> alone, so
  that its instrument has no holding row.
\<close>

definition backtest_position_db :: database where
  "backtest_position_db =
     (case createPosition empty_db ''NIFTY'' BUY 100 10 0 (Some 7) of
        Inr (row, db) \<Rightarrow> db
      | Inl e \<Rightarrow> empty_db)"

text \<open>
  A long of 10 opened at 100 through \<open>createOrder\<close>, and a stored order that is still
  pending.
\<close>

definition long_opened_db :: database where
  "long_opened_db = snd (createOrder empty_db (fill_request ''NIFTY'' (buy 10 100)) 0)"

definition pending_order_db :: database where
  "pending_order_db =
     (case createOrder_repo empty_db (fill_request ''NIFTY'' (buy 10 100)) 0 of
        Inr (row, db) \<Rightarrow> db
      | Inl e \<Rightarrow> empty_db)"

text \<open>Bars with the given closes, and a crossover strategy with periods 1 and 2.\<close>

definition bar :: "nat \<Rightarrow> real \<Rightarrow> candle" where
  "bar t c =
     \<lparr> c_id = t, c_instrument = ''NIFTY'', c_timeframe = ''1m'', c_epoch_time = t,
       c_open_price = c, c_high_price = c, c_low_price = c, c_close_price = c,
       c_volume = 0, c_open_interest = 0 \<rparr>"

definition oi_bar :: "real \<Rightarrow> real \<Rightarrow> candle" where
  "oi_bar c oi = (bar 0 c)\<lparr> c_open_interest := oi \<rparr>"



section \<open>Column coercion\<close>

lemma db_bind_Inr [simp]: "db_bind (Inr x) f = f x"
  by (simp add: db_bind_def)

lemma db_bind_Inl [simp]: "db_bind (Inl e) f = Inl e"
  by (simp add: db_bind_def)

lemma db_bind_eq_Inr:
  "db_bind m f = Inr y \<longleftrightarrow> (\<exists>x. m = Inr x \<and> f x = Inr y)"
  by (cases m) simp_all






lemma round8_zero [simp]: "round8 0 = 0"
  by (simp add: round8_def)



lemma is_decimal_coerce: "is_decimal x \<Longrightarrow> decimal_18_8 x = Inr x"
  by (simp add: is_decimal_def)

lemma is_decimal_zero [simp]: "is_decimal 0"
  by (simp add: is_decimal_def decimal_18_8_def)

section \<open>Fresh ids and row updates\<close>





lemma find_map_update:
  assumes "\<And>r. key (f r) = key r"
  shows "find (\<lambda>r. key r = k) (map (\<lambda>r. if key r = k then f r else r) rows) =
         map_option f (find (\<lambda>r. key r = k) rows)"
  using assms by (induction rows) auto

section \<open>The ledger: holdings\<close>

lemma updateHolding_Inr:
  assumes "updateHolding db instrument quantity averagePrice realizedPnl = Inr (row, db')"
  shows "db' = db\<lparr>holdings := (holdings db)(instrument \<mapsto> row)\<rparr>"
    and "h_quantity row = round8 quantity"
    and "h_average_price row = round8 averagePrice"
    and "h_realized_pnl row =
           (case holdings db instrument of
              None \<Rightarrow> round8 realizedPnl
            | Some h \<Rightarrow> round8 (h_realized_pnl h + round8 realizedPnl))"
  using assms
  by (auto simp add: updateHolding_def decimal_18_8_def Let_def split: if_splits option.splits)

text \<open>The upsert raises exactly when one of the values it writes does not fit its column.\<close>

lemma updateHolding_raises_iff:
  "(\<exists>e. updateHolding db instrument quantity averagePrice realizedPnl = Inl e) \<longleftrightarrow>
   \<not> (\<bar>round8 quantity\<bar> < 10000000000
      \<and> \<bar>round8 averagePrice\<bar> < 10000000000
      \<and> \<bar>round8 (quantity * averagePrice)\<bar> < 10000000000
      \<and> \<bar>round8 realizedPnl\<bar> < 10000000000
      \<and> (case holdings db instrument of
            None \<Rightarrow> True
          | Some h \<Rightarrow> \<bar>round8 (h_realized_pnl h + round8 realizedPnl)\<bar> < 10000000000))"
  by (simp add: updateHolding_def decimal_18_8_def Let_def split: option.splits)

lemma updateHoldingFromOrder_Inr:
  assumes "updateHoldingFromOrder db ord = Inr db'"
  shows "\<exists>row. db' = db\<lparr>holdings := (holdings db)(o_instrument ord \<mapsto> row)\<rparr>
           \<and> h_quantity row = round8 (fst (holdingUpdate (getHolding db (o_instrument ord)) ord))
           \<and> h_average_price row =
               round8 (fst (snd (holdingUpdate (getHolding db (o_instrument ord)) ord)))
           \<and> h_realized_pnl row =
               (case getHolding db (o_instrument ord) of
                  None \<Rightarrow> round8 (snd (snd (holdingUpdate (getHolding db (o_instrument ord)) ord)))
                | Some h \<Rightarrow>
                    round8 (h_realized_pnl h
                      + round8 (snd (snd (holdingUpdate (getHolding db (o_instrument ord)) ord)))))"
proof -
  obtain nq na r where t: "holdingUpdate (getHolding db (o_instrument ord)) ord = (nq, na, r)"
    by (cases "holdingUpdate (getHolding db (o_instrument ord)) ord") auto
  obtain row where u: "updateHolding db (o_instrument ord) nq na r = Inr (row, db')"
    using assms unfolding updateHoldingFromOrder_def Let_def t prod.case
    by (cases "updateHolding db (o_instrument ord) nq na r") auto
  note f = updateHolding_Inr [OF u]
  show ?thesis
  proof (intro exI [of _ row] conjI)
    show "db' = db\<lparr>holdings := (holdings db)(o_instrument ord \<mapsto> row)\<rparr>" by (rule f(1))
    show "h_quantity row = round8 (fst (holdingUpdate (getHolding db (o_instrument ord)) ord))"
      unfolding t fst_conv by (rule f(2))
    show "h_average_price row =
            round8 (fst (snd (holdingUpdate (getHolding db (o_instrument ord)) ord)))"
      unfolding t fst_conv snd_conv by (rule f(3))
    show "h_realized_pnl row =
               (case getHolding db (o_instrument ord) of
                  None \<Rightarrow> round8 (snd (snd (holdingUpdate (getHolding db (o_instrument ord)) ord)))
                | Some h \<Rightarrow>
                    round8 (h_realized_pnl h
                      + round8 (snd (snd (holdingUpdate (getHolding db (o_instrument ord)) ord)))))"
      unfolding t snd_conv unfolding getHolding_def by (rule f(4))
  qed
qed



lemmas holding_eval_defs = updateHoldingFromOrder_def holdingUpdate_def getHolding_def
  updateHolding_def decimal_18_8_def round8_def orderQuantity_def orderPrice_def js_or_def
  holding_after_def Let_def

text \<open>
  Claim C1, evaluated on the code. A long holding of 10 at 100 receives a SELL of 15 at
  120: the fill reverses the sign of the holding (the new quantity is -5), and the average
  price stays 100 instead of becoming the fill price 120. A SELL of 5 at 120 on the same
  holding is a partial reduction (5 remain), and the average price becomes 120 instead of
  staying 100. The test \<open>Math.abs(newQuantity) === Math.abs(orderQuantity)\<close> holds
  exactly when the fill closes half of the holding, not when it reverses the sign.
\<close>

theorem C1_reversal_keeps_old_average:
  "map_option h_quantity
     (holding_after (updateHoldingFromOrder long_10_at_100 (filled_sell 15 120)) ''NIFTY'') = Some (- 5)
   \<and> map_option h_average_price
     (holding_after (updateHoldingFromOrder long_10_at_100 (filled_sell 15 120)) ''NIFTY'') = Some 100
   \<and> map_option h_quantity
     (holding_after (updateHoldingFromOrder long_10_at_100 (filled_sell 5 120)) ''NIFTY'') = Some 5
   \<and> map_option h_average_price
     (holding_after (updateHoldingFromOrder long_10_at_100 (filled_sell 5 120)) ''NIFTY'') = Some 120"
  by (simp add: holding_eval_defs long_10_at_100_def filled_sell_def)




section \<open>The ledger: filling orders\<close>

lemma updateHoldingFromOrder_frame:
  assumes "updateHoldingFromOrder db ord = Inr db'"
  shows "orders db' = orders db" and "positions db' = positions db"
proof -
  obtain row where "db' = db\<lparr>holdings := (holdings db)(o_instrument ord \<mapsto> row)\<rparr>"
    using updateHoldingFromOrder_Inr [OF assms] by blast
  then show "orders db' = orders db" and "positions db' = positions db" by simp_all
qed

lemma createPosition_Inr:
  assumes "createPosition db instrument sd entryPrice quantity entryTime strategyId = Inr (row, db')"
  shows "db' = db\<lparr>positions := positions db @ [row]\<rparr>"
    and "p_id row = fresh_uuid (map p_id (positions db))"
    and "p_status row = OPEN"
    and "p_instrument row = instrument"
  using assms
  by (auto simp add: createPosition_def db_bind_eq_Inr Let_def)

lemma createPositionFromOrder_frame:
  assumes "createPositionFromOrder db ord = Inr db'"
  shows "orders db' = orders db" and "holdings db' = holdings db"
proof -
  obtain row where c: "createPosition db (o_instrument ord) (o_side ord)
                (js_or (o_filled_price ord) (o_price ord))
                (o_filled_quantity ord)
                (case o_filled_time ord of Some t \<Rightarrow> t | None \<Rightarrow> o_order_time ord)
                None = Inr (row, db')"
    using assms unfolding createPositionFromOrder_def db_bind_eq_Inr by auto
  have "db' = db\<lparr>positions := positions db @ [row]\<rparr>" by (rule createPosition_Inr(1) [OF c])
  then show "orders db' = orders db" and "holdings db' = holdings db" by simp_all
qed

text \<open>
  \<open>fillOrder\<close> on a pending order whose final quantity and price fit their columns: the
  row is updated with the final quantity and price at 8 decimals, then the holding is
  updated from the updated row and a position is created.
\<close>

lemma fillOrder_pending:
  assumes "getOrderById db orderId = Some ord" and "o_status ord = PENDING"
      and "decimal_18_8 (js_or fq (o_quantity ord)) = Inr q'"
      and "decimal_18_8 (js_or fp (o_price ord)) = Inr p'"
  shows "fillOrder db orderId fq fp now =
    (let uo = ord\<lparr> o_status := FILLED, o_filled_quantity := q',
                    o_filled_time := Some now, o_filled_price := Some p' \<rparr>;
         db1 = db\<lparr>orders := map (\<lambda>r. if o_id r = orderId then
                r\<lparr> o_status := FILLED, o_filled_quantity := q',
                    o_filled_time := Some now, o_filled_price := Some p' \<rparr> else r) (orders db)\<rparr>
     in (case updateHoldingFromOrder db1 uo of
           Inl e \<Rightarrow> (Inl e, db1)
         | Inr db2 \<Rightarrow>
             (case createPositionFromOrder db2 uo of
                Inl e \<Rightarrow> (Inl e, db2)
              | Inr db3 \<Rightarrow> (Inr uo, db3))))"
proof -
  have f: "find (\<lambda>r. o_id r = orderId) (orders db) = Some ord"
    using assms(1) by (simp add: getOrderById_def)
  have m: "find (\<lambda>r. o_id r = orderId) (map (\<lambda>r. if o_id r = orderId then
                r\<lparr> o_status := FILLED, o_filled_quantity := q',
                    o_filled_time := Some now, o_filled_price := Some p' \<rparr> else r) (orders db))
        = Some (ord\<lparr> o_status := FILLED, o_filled_quantity := q',
                    o_filled_time := Some now, o_filled_price := Some p' \<rparr>)"
    by (subst find_map_update [where key = o_id]) (simp_all add: f)
  have u: "updateOrderStatus db orderId FILLED (Some (js_or fq (o_quantity ord)))
             (Some (js_or fp (o_price ord))) now =
           Inr (Some (ord\<lparr> o_status := FILLED, o_filled_quantity := q',
                    o_filled_time := Some now, o_filled_price := Some p' \<rparr>),
                db\<lparr>orders := map (\<lambda>r. if o_id r = orderId then
                r\<lparr> o_status := FILLED, o_filled_quantity := q',
                    o_filled_time := Some now, o_filled_price := Some p' \<rparr> else r) (orders db)\<rparr>)"
    by (simp add: updateOrderStatus_def update_orders_def assms(3,4) m Let_def)
  show ?thesis
    unfolding fillOrder_def assms(1) option.case Let_def u
    using assms(2) by simp
qed

lemma fillOrder_overflow:
  assumes "getOrderById db orderId = Some ord" and "o_status ord = PENDING"
      and "decimal_18_8 (js_or fq (o_quantity ord)) = Inl e
           \<or> (\<exists>q'. decimal_18_8 (js_or fq (o_quantity ord)) = Inr q'
                \<and> decimal_18_8 (js_or fp (o_price ord)) = Inl e)"
  shows "fillOrder db orderId fq fp now = (Inl e, db)"
proof -
  have u: "updateOrderStatus db orderId FILLED (Some (js_or fq (o_quantity ord)))
             (Some (js_or fp (o_price ord))) now = Inl e"
    using assms(3) by (auto simp add: updateOrderStatus_def)
  show ?thesis
    unfolding fillOrder_def assms(1) option.case Let_def u
    using assms(2) by simp
qed

lemma js_or_zero: "js_or (Some 0) d = js_or None d"
  by (simp add: js_or_def)








lemmas ledger_defs = createOrder_def validateOrderData_def createOrder_repo_def fillOrder_def
  getOrderById_def updateOrderStatus_def update_orders_def updateHoldingFromOrder_def
  holdingUpdate_def updateHolding_def getHolding_def
  createPositionFromOrder_def createPosition_def orderQuantity_def orderPrice_def js_or_def
  decimal_18_8_def round8_def timestamptz_def
  fresh_uuid_def fill_request_def buy_def sell_def empty_db_def Let_def




section \<open>The ledger: closing positions\<close>

lemma long_opened_db_eq:
  "long_opened_db =
     \<lparr> orders = [\<lparr> o_id = 1, o_instrument = ''NIFTY'', o_side = BUY, o_quantity = 10, o_price = 100,
                    o_status = FILLED, o_filled_quantity = 10, o_filled_price = Some 100,
                    o_order_time = 0, o_filled_time = Some 0 \<rparr>],
       holdings = [''NIFTY'' \<mapsto> \<lparr> h_instrument = ''NIFTY'', h_quantity = 10, h_average_price = 100,
                                     h_total_value = 1000, h_unrealized_pnl = 0, h_realized_pnl = 0 \<rparr>],
       positions = [\<lparr> p_id = 1, p_instrument = ''NIFTY'', p_side = BUY, p_entry_price = 100,
                       p_exit_price = None, p_quantity = 10, p_status = OPEN, p_pnl = 0,
                       p_entry_time = 0, p_exit_time = None, p_strategy_id = None \<rparr>] \<rparr>"
  by (simp add: long_opened_db_def ledger_defs)

lemma backtest_position_db_eq:
  "backtest_position_db =
     \<lparr> orders = [], holdings = Map.empty,
       positions = [\<lparr> p_id = 1, p_instrument = ''NIFTY'', p_side = BUY, p_entry_price = 100,
                       p_exit_price = None, p_quantity = 10, p_status = OPEN, p_pnl = 0,
                       p_entry_time = 0, p_exit_time = None, p_strategy_id = Some 7 \<rparr>] \<rparr>"
  by (simp add: backtest_position_db_def ledger_defs)






text \<open>
  Claim C9. Closing a position that does not exist or that is already CLOSED fails with
  the NotFound error, and the database after the failed call is the database before it.
\<close>

theorem C9_close_missing_or_closed:
  assumes "getPositionById db positionId = None
           \<or> (\<exists>pos. getPositionById db positionId = Some pos \<and> p_status pos = CLOSED)"
  shows "closePosition db positionId exitPrice now =
           (Inl (NotFoundError ''Position not found or already closed''), db)"
  using assms by (auto simp add: closePosition_def closePosition_repo_def)

theorem C9_close_missing_or_closed_witness:
  "closePosition backtest_position_db 2 110 5 =
     (Inl (NotFoundError ''Position not found or already closed''), backtest_position_db)
   \<and> closePosition (snd (closePosition backtest_position_db 1 110 5)) 1 120 6 =
     (Inl (NotFoundError ''Position not found or already closed''), snd (closePosition backtest_position_db 1 110 5))"
proof -
  have a: "getPositionById backtest_position_db 2 = None"
    by (simp add: backtest_position_db_eq getPositionById_def)
  have b: "\<exists>pos. getPositionById (snd (closePosition backtest_position_db 1 110 5)) 1 = Some pos
             \<and> p_status pos = CLOSED"
    by (simp add: backtest_position_db_eq
        getPositionById_def getHolding_def closePosition_def closePosition_repo_def calculatePnl_def
        updateHoldingFromPositionClosure_def decimal_18_8_def round8_def timestamptz_def Let_def)
  show ?thesis
    using C9_close_missing_or_closed [of backtest_position_db 2 110 5]
          C9_close_missing_or_closed [of "snd (closePosition backtest_position_db 1 110 5)" 1 120 6]
          a b
    by blast
qed

text \<open>
  The overflow of the P&L column on closing: the long of 10 opened at 100 is closed at
  2000000000, the pnl 19999999000 does not fit, the \<open>UPDATE\<close> raises and the database
  is unchanged, so that the position stays OPEN.
\<close>

lemma closePosition_pnl_overflow:
  "closePosition long_opened_db 1 2000000000 5 = (Inl (Error ''numeric field overflow''), long_opened_db)"
  by (simp add: long_opened_db_eq closePosition_def closePosition_repo_def getPositionById_def
        calculatePnl_def decimal_18_8_def round8_def timestamptz_def Let_def)

section \<open>The ledger: the arguments of fillOrder\<close>

lemma fillOrder_zero_quantity:
  "fillOrder db orderId (Some 0) fp now = fillOrder db orderId None fp now"
  unfolding fillOrder_def js_or_zero by (rule refl)

lemma fillOrder_zero_price:
  "fillOrder db orderId fq (Some 0) now = fillOrder db orderId fq None now"
  unfolding fillOrder_def js_or_zero by (rule refl)

text \<open>
  The order row after \<open>fillOrder\<close> on a pending order whose final quantity and price fit
  their columns, whether or not the holding update or the position insert raises after it.
\<close>

lemma fillOrder_recorded:
  assumes "getOrderById db orderId = Some ord" and "o_status ord = PENDING"
      and "decimal_18_8 (js_or fq (o_quantity ord)) = Inr q'"
      and "decimal_18_8 (js_or fp (o_price ord)) = Inr p'"
  shows "getOrderById (snd (fillOrder db orderId fq fp now)) orderId =
           Some (ord\<lparr> o_status := FILLED, o_filled_quantity := q',
                      o_filled_time := Some now, o_filled_price := Some p' \<rparr>)"
proof -
  define uo where "uo = ord\<lparr> o_status := FILLED, o_filled_quantity := q',
                    o_filled_time := Some now, o_filled_price := Some p' \<rparr>"
  define db1 where "db1 = db\<lparr>orders := map (\<lambda>r. if o_id r = orderId then
                r\<lparr> o_status := FILLED, o_filled_quantity := q',
                    o_filled_time := Some now, o_filled_price := Some p' \<rparr> else r) (orders db)\<rparr>"
  have f: "find (\<lambda>r. o_id r = orderId) (orders db) = Some ord"
    using assms(1) by (simp add: getOrderById_def)
  have m: "getOrderById db1 orderId = Some uo"
    unfolding getOrderById_def db1_def uo_def
    by (simp, subst find_map_update [where key = o_id]) (simp_all add: f)
  have fe: "fillOrder db orderId fq fp now =
     (case updateHoldingFromOrder db1 uo of
           Inl e \<Rightarrow> (Inl e, db1)
         | Inr db2 \<Rightarrow>
             (case createPositionFromOrder db2 uo of
                Inl e \<Rightarrow> (Inl e, db2)
              | Inr db3 \<Rightarrow> (Inr uo, db3)))"
    unfolding uo_def db1_def
    using fillOrder_pending [OF assms, of now] unfolding Let_def .
  have o: "orders (snd (fillOrder db orderId fq fp now)) = orders db1"
  proof (cases "updateHoldingFromOrder db1 uo")
    case (Inl e)
    then show ?thesis unfolding fe by simp
  next
    case (Inr db2)
    note h2 = Inr
    note u = updateHoldingFromOrder_frame(1) [OF h2]
    show ?thesis
    proof (cases "createPositionFromOrder db2 uo")
      case (Inl e)
      then show ?thesis using u by (simp add: fe h2)
    next
      case (Inr db3)
      note c = createPositionFromOrder_frame(1) [OF Inr]
      show ?thesis using u c by (simp add: fe h2 Inr)
    qed
  qed
  show ?thesis
    using m unfolding getOrderById_def o uo_def .
qed

lemma round8_nonzero:
  assumes "1 / 100000000 \<le> \<bar>x\<bar>"
  shows "round8 x \<noteq> 0"
proof (cases "0 \<le> x")
  case True
  then have "1 \<le> x * 100000000" using assms by simp
  then have "\<lfloor>x * 100000000 + 1 / 2\<rfloor> \<noteq> 0" by linarith
  then show ?thesis using True by (simp add: round8_def)
next
  case False
  then have "1 \<le> - x * 100000000" using assms by simp
  then have "\<lfloor>- x * 100000000 + 1 / 2\<rfloor> \<noteq> 0" by linarith
  then show ?thesis using False by (simp add: round8_def)
qed

text \<open>
  Claim C10, as amended. On every order a fill quantity of 0 or a fill price of 0 behaves
  as the omitted argument. On a pending order whose stored quantity and price are values
  of their columns, the call with both arguments 0 records the order as FILLED at its own
  quantity and price. Whatever the arguments, when the final quantity and price fit
  their columns the order is recorded as FILLED with the final quantity and price at
  8 decimals, also when the holding update raises afterwards; the recorded fill quantity
  is therefore non-zero when the final quantity is at least \<open>10^-8\<close> in absolute value
  (and likewise the price), and it is zero when the order's own quantity is zero or when a
  non-zero argument rounds to zero.
\<close>

theorem C10_zero_fill_arguments:
  assumes "getOrderById db orderId = Some ord" and "o_status ord = PENDING"
      and "is_decimal (o_quantity ord)" and "is_decimal (o_price ord)"
  shows "fillOrder db orderId (Some 0) fp now = fillOrder db orderId None fp now
       \<and> fillOrder db orderId fq (Some 0) now = fillOrder db orderId fq None now
       \<and> (\<exists>uo. getOrderById (snd (fillOrder db orderId (Some 0) (Some 0) now)) orderId = Some uo
             \<and> o_status uo = FILLED
             \<and> o_filled_quantity uo = o_quantity ord
             \<and> o_filled_price uo = Some (o_price ord))
       \<and> (decimal_18_8 (js_or fq (o_quantity ord)) = Inr (round8 (js_or fq (o_quantity ord)))
            \<and> decimal_18_8 (js_or fp (o_price ord)) = Inr (round8 (js_or fp (o_price ord))) \<longrightarrow>
            (\<exists>uo. getOrderById (snd (fillOrder db orderId fq fp now)) orderId = Some uo
               \<and> o_status uo = FILLED
               \<and> o_filled_quantity uo = round8 (js_or fq (o_quantity ord))
               \<and> o_filled_price uo = Some (round8 (js_or fp (o_price ord)))
               \<and> (1 / 100000000 \<le> \<bar>js_or fq (o_quantity ord)\<bar> \<longrightarrow> o_filled_quantity uo \<noteq> 0)
               \<and> (1 / 100000000 \<le> \<bar>js_or fp (o_price ord)\<bar> \<longrightarrow> o_filled_price uo \<noteq> Some 0)))"
proof -
  have a: "fillOrder db orderId (Some 0) fp now = fillOrder db orderId None fp now"
    by (rule fillOrder_zero_quantity)
  have b: "fillOrder db orderId fq (Some 0) now = fillOrder db orderId fq None now"
    by (rule fillOrder_zero_price)
  have q0: "decimal_18_8 (js_or (Some 0) (o_quantity ord)) = Inr (o_quantity ord)"
    using is_decimal_coerce [OF assms(3)] by (simp add: js_or_def)
  have p0: "decimal_18_8 (js_or (Some 0) (o_price ord)) = Inr (o_price ord)"
    using is_decimal_coerce [OF assms(4)] by (simp add: js_or_def)
  have c: "\<exists>uo. getOrderById (snd (fillOrder db orderId (Some 0) (Some 0) now)) orderId = Some uo
             \<and> o_status uo = FILLED
             \<and> o_filled_quantity uo = o_quantity ord
             \<and> o_filled_price uo = Some (o_price ord)"
    unfolding fillOrder_recorded [OF assms(1,2) q0 p0] by simp
  have d: "decimal_18_8 (js_or fq (o_quantity ord)) = Inr (round8 (js_or fq (o_quantity ord)))
            \<and> decimal_18_8 (js_or fp (o_price ord)) = Inr (round8 (js_or fp (o_price ord))) \<longrightarrow>
            (\<exists>uo. getOrderById (snd (fillOrder db orderId fq fp now)) orderId = Some uo
               \<and> o_status uo = FILLED
               \<and> o_filled_quantity uo = round8 (js_or fq (o_quantity ord))
               \<and> o_filled_price uo = Some (round8 (js_or fp (o_price ord)))
               \<and> (1 / 100000000 \<le> \<bar>js_or fq (o_quantity ord)\<bar> \<longrightarrow> o_filled_quantity uo \<noteq> 0)
               \<and> (1 / 100000000 \<le> \<bar>js_or fp (o_price ord)\<bar> \<longrightarrow> o_filled_price uo \<noteq> Some 0))"
  proof
    assume h: "decimal_18_8 (js_or fq (o_quantity ord)) = Inr (round8 (js_or fq (o_quantity ord)))
            \<and> decimal_18_8 (js_or fp (o_price ord)) = Inr (round8 (js_or fp (o_price ord)))"
    then have hq: "decimal_18_8 (js_or fq (o_quantity ord)) = Inr (round8 (js_or fq (o_quantity ord)))"
      and hp: "decimal_18_8 (js_or fp (o_price ord)) = Inr (round8 (js_or fp (o_price ord)))"
      by blast+
    show "\<exists>uo. getOrderById (snd (fillOrder db orderId fq fp now)) orderId = Some uo
               \<and> o_status uo = FILLED
               \<and> o_filled_quantity uo = round8 (js_or fq (o_quantity ord))
               \<and> o_filled_price uo = Some (round8 (js_or fp (o_price ord)))
               \<and> (1 / 100000000 \<le> \<bar>js_or fq (o_quantity ord)\<bar> \<longrightarrow> o_filled_quantity uo \<noteq> 0)
               \<and> (1 / 100000000 \<le> \<bar>js_or fp (o_price ord)\<bar> \<longrightarrow> o_filled_price uo \<noteq> Some 0)"
      unfolding fillOrder_recorded [OF assms(1,2) hq hp]
      using round8_nonzero [of "js_or fq (o_quantity ord)"] round8_nonzero [of "js_or fp (o_price ord)"]
      by simp
  qed
  show ?thesis using a b c d by (intro conjI)
qed

theorem C10_zero_fill_arguments_witness:
  "fillOrder pending_order_db 1 (Some 0) (Some 0) 3 = fillOrder pending_order_db 1 None None 3
   \<and> (\<exists>uo. getOrderById (snd (fillOrder pending_order_db 1 (Some 0) (Some 0) 3)) 1 = Some uo
         \<and> o_status uo = FILLED
         \<and> o_filled_quantity uo = 10 \<and> o_filled_price uo = Some 100)
   \<and> (\<exists>uo. getOrderById (snd (fillOrder pending_order_db 1 (Some 4) (Some 90) 3)) 1 = Some uo
         \<and> o_status uo = FILLED
         \<and> o_filled_quantity uo = 4 \<and> o_filled_price uo = Some 90)"
proof -
  let ?ord = "\<lparr> o_id = 1, o_instrument = ''NIFTY'', o_side = BUY, o_quantity = 10, o_price = 100,
                    o_status = PENDING, o_filled_quantity = 0, o_filled_price = None,
                    o_order_time = 0, o_filled_time = None \<rparr>"
  have a: "getOrderById pending_order_db 1 = Some ?ord"
    by (simp add: pending_order_db_def ledger_defs)
  have b: "o_status ?ord = PENDING" by simp
  have dq: "is_decimal (o_quantity ?ord)" by (simp add: is_decimal_def decimal_18_8_def round8_def)
  have dp: "is_decimal (o_price ?ord)" by (simp add: is_decimal_def decimal_18_8_def round8_def)
  have c: "fillOrder pending_order_db 1 (Some 0) (Some 0) 3 = fillOrder pending_order_db 1 None (Some 0) 3"
    using C10_zero_fill_arguments [OF a b dq dp, of "Some 0" 3 None] by blast
  have d: "fillOrder pending_order_db 1 None (Some 0) 3 = fillOrder pending_order_db 1 None None 3"
    using C10_zero_fill_arguments [OF a b dq dp, of None 3 None] by blast
  have e: "\<exists>uo. getOrderById (snd (fillOrder pending_order_db 1 (Some 0) (Some 0) 3)) 1 = Some uo
         \<and> o_status uo = FILLED
         \<and> o_filled_quantity uo = o_quantity ?ord \<and> o_filled_price uo = Some (o_price ?ord)"
    using C10_zero_fill_arguments [OF a b dq dp, of None 3 None] by blast
  have hq: "decimal_18_8 (js_or (Some 4) (o_quantity ?ord)) = Inr (round8 (js_or (Some 4) (o_quantity ?ord)))"
    by (simp add: decimal_18_8_def round8_def js_or_def)
  have hp: "decimal_18_8 (js_or (Some 90) (o_price ?ord)) = Inr (round8 (js_or (Some 90) (o_price ?ord)))"
    by (simp add: decimal_18_8_def round8_def js_or_def)
  have f: "\<exists>uo. getOrderById (snd (fillOrder pending_order_db 1 (Some 4) (Some 90) 3)) 1 = Some uo
         \<and> o_status uo = FILLED
         \<and> o_filled_quantity uo = round8 (js_or (Some 4) (o_quantity ?ord))
         \<and> o_filled_price uo = Some (round8 (js_or (Some 90) (o_price ?ord)))"
    using C10_zero_fill_arguments [OF a b dq dp, of "Some 90" 3 "Some 4"] hq hp by blast
  have r4: "round8 (js_or (Some 4) (o_quantity ?ord)) = 4" by (simp add: round8_def js_or_def)
  have r90: "round8 (js_or (Some 90) (o_price ?ord)) = 90" by (simp add: round8_def js_or_def)
  have f': "\<exists>uo. getOrderById (snd (fillOrder pending_order_db 1 (Some 4) (Some 90) 3)) 1 = Some uo
         \<and> o_status uo = FILLED
         \<and> o_filled_quantity uo = 4 \<and> o_filled_price uo = Some 90"
    using f unfolding r4 r90 .
  have e': "\<exists>uo. getOrderById (snd (fillOrder pending_order_db 1 (Some 0) (Some 0) 3)) 1 = Some uo
         \<and> o_status uo = FILLED
         \<and> o_filled_quantity uo = 10 \<and> o_filled_price uo = Some 100"
    using e by simp
  have cd: "fillOrder pending_order_db 1 (Some 0) (Some 0) 3 = fillOrder pending_order_db 1 None None 3"
    using c d by simp
  show ?thesis using cd e' f' by (intro conjI)
qed

text \<open>
  Claim C10 as stated fails in its last clause: a zero fill quantity is recorded through
  \<open>fillOrder\<close>. On the pending order of 10 at 100 the call with the fill quantity
  \<open>10^-9\<close>, which is not zero, succeeds, and the order is recorded as FILLED with the
  fill quantity 0, the value of \<open>10^-9\<close> at 8 decimals.
\<close>

theorem C10_rounded_fill_counterexample:
  "map_option o_status (getOrderById pending_order_db 1) = Some PENDING
   \<and> map_sum id o_filled_quantity (fst (fillOrder pending_order_db 1 (Some (1 / 1000000000)) (Some 100) 3))
       = Inr 0
   \<and> map_option o_status
       (getOrderById (snd (fillOrder pending_order_db 1 (Some (1 / 1000000000)) (Some 100) 3)) 1)
       = Some FILLED
   \<and> map_option o_filled_quantity
       (getOrderById (snd (fillOrder pending_order_db 1 (Some (1 / 1000000000)) (Some 100) 3)) 1)
       = Some 0"
  by (simp add: pending_order_db_def ledger_defs)

section \<open>The OI interpretation\<close>

lemma priceChangePercent_Fin:
  assumes "0 < c_close_price previous"
  shows "priceChangePercent previous current = Fin (price_change_pct previous current)"
  using assms by (simp add: priceChangePercent_def price_change_pct_def js_div_def)

lemma oiChangePercent_Fin:
  "oiChangePercent previous current = Fin (oi_change_pct previous current)"
  by (simp add: oiChangePercent_def oi_change_pct_def js_div_def)

lemma price_change_pct_sign:
  assumes "0 < c_close_price previous"
  shows "0 < price_change_pct previous current \<longleftrightarrow> 0 < c_close_price current - c_close_price previous"
  using assms by (simp add: price_change_pct_def zero_less_mult_iff zero_less_divide_iff)

lemma oi_change_pct_sign:
  assumes "0 < c_open_interest previous"
  shows "0 < oi_change_pct previous current \<longleftrightarrow> 0 < c_open_interest current - c_open_interest previous"
  using assms by (simp add: oi_change_pct_def zero_less_mult_iff zero_less_divide_iff)

lemma priceDirection_spec:
  assumes "0 < c_close_price previous"
  shows "a_priceDirection (calculateOIInterpretation previous current) =
         spec_direction (1 / 10) (price_change_pct previous current)"
  using price_change_pct_sign [OF assms, of current]
  by (simp add: calculateOIInterpretation_def Let_def priceChangePercent_Fin [OF assms]
        PRICE_THRESHOLD_def spec_direction_def split: prod.splits)

lemma oiDirection_spec:
  "a_oiDirection (calculateOIInterpretation previous current) =
         spec_direction 1 (oi_change_pct previous current)"
proof (cases "0 < c_open_interest previous")
  case True
  then show ?thesis
    using oi_change_pct_sign [OF True, of current]
    by (simp add: calculateOIInterpretation_def Let_def oiChangePercent_Fin
        OI_THRESHOLD_def spec_direction_def split: prod.splits)
next
  case False
  then have z: "oi_change_pct previous current = 0" by (simp add: oi_change_pct_def)
  show ?thesis
    by (simp add: calculateOIInterpretation_def Let_def oiChangePercent_Fin z
        OI_THRESHOLD_def spec_direction_def split: prod.splits)
qed

lemma interpretation_cross:
  "a_interpretation (calculateOIInterpretation previous current) =
   spec_interpretation (a_priceDirection (calculateOIInterpretation previous current))
                       (a_oiDirection (calculateOIInterpretation previous current))"
proof -
  define pd where "pd = (if js_lt (js_abs (priceChangePercent previous current)) (Fin PRICE_THRESHOLD) then FLAT
                else if 0 < c_close_price current - c_close_price previous then UP else DOWN)"
  define od where "od = (if js_lt (js_abs (oiChangePercent previous current)) (Fin OI_THRESHOLD) then FLAT
                else if 0 < c_open_interest current - c_open_interest previous then UP else DOWN)"
  have "a_interpretation (calculateOIInterpretation previous current) = spec_interpretation pd od"
    unfolding calculateOIInterpretation_def Let_def pd_def [symmetric] od_def [symmetric]
    by (cases pd; cases od) simp_all
  moreover have "a_priceDirection (calculateOIInterpretation previous current) = pd"
    unfolding calculateOIInterpretation_def Let_def pd_def by (simp split: prod.splits)
  moreover have "a_oiDirection (calculateOIInterpretation previous current) = od"
    unfolding calculateOIInterpretation_def Let_def od_def by (simp split: prod.splits)
  ultimately show ?thesis by simp
qed

text \<open>
  Claim C6. For a previous bar with a positive close the directions computed by the code
  are the directions of the specification (FLAT below the thresholds 0.1 and 1.0 on the
  percentage changes, else UP or DOWN by sign), and the interpretation is their cross:
  LONG_BUILDUP for UP/UP, SHORT_BUILDUP for DOWN/UP, LONG_UNWINDING for DOWN/DOWN,
  SHORT_COVERING for UP/DOWN and INCONCLUSIVE in every other case; in particular it is
  INCONCLUSIVE whenever the absolute price change is below 0.1 percent.
\<close>

theorem C6_classification:
  assumes "0 < c_close_price previous"
  shows "a_priceDirection (calculateOIInterpretation previous current) =
           spec_direction (1 / 10) (price_change_pct previous current)
       \<and> a_oiDirection (calculateOIInterpretation previous current) =
           spec_direction 1 (oi_change_pct previous current)
       \<and> a_interpretation (calculateOIInterpretation previous current) =
           spec_interpretation (spec_direction (1 / 10) (price_change_pct previous current))
                               (spec_direction 1 (oi_change_pct previous current))
       \<and> (\<bar>price_change_pct previous current\<bar> < 1 / 10 \<longrightarrow>
            a_interpretation (calculateOIInterpretation previous current) = INCONCLUSIVE)"
proof -
  have i: "a_interpretation (calculateOIInterpretation previous current) =
           spec_interpretation (spec_direction (1 / 10) (price_change_pct previous current))
                               (spec_direction 1 (oi_change_pct previous current))"
    using interpretation_cross [of previous current]
    by (simp only: priceDirection_spec [OF assms] oiDirection_spec)
  have f: "\<bar>price_change_pct previous current\<bar> < 1 / 10 \<longrightarrow>
            a_interpretation (calculateOIInterpretation previous current) = INCONCLUSIVE"
    unfolding i by (simp add: spec_direction_def)
  show ?thesis using priceDirection_spec [OF assms] oiDirection_spec i f by blast
qed

theorem C6_classification_witness:
  "0 < c_close_price (oi_bar 100 1000)
   \<and> a_interpretation (calculateOIInterpretation (oi_bar 100 1000) (oi_bar (1012 / 10) 1050)) = LONG_BUILDUP
   \<and> a_interpretation (calculateOIInterpretation (oi_bar 100 1000) (oi_bar (10005 / 100) 1050)) = INCONCLUSIVE"
proof -
  have h: "0 < c_close_price (oi_bar 100 1000)" by (simp add: oi_bar_def bar_def)
  have a: "a_interpretation (calculateOIInterpretation (oi_bar 100 1000) (oi_bar (1012 / 10) 1050)) = LONG_BUILDUP"
    using C6_classification [OF h, of "oi_bar (1012 / 10) 1050"]
    by (simp add: spec_direction_def price_change_pct_def oi_change_pct_def oi_bar_def bar_def)
  have b: "a_interpretation (calculateOIInterpretation (oi_bar 100 1000) (oi_bar (10005 / 100) 1050)) = INCONCLUSIVE"
    using C6_classification [OF h, of "oi_bar (10005 / 100) 1050"]
    by (simp add: spec_direction_def price_change_pct_def oi_change_pct_def oi_bar_def bar_def)
  show ?thesis using h a b by blast
qed


section \<open>Performance metrics\<close>

lemma metrics_maxDrawdown:
  "maxDrawdown (calculatePerformanceMetrics ps cs) =
   fst (foldl drawdown_step (0, 0, 0) (filter (\<lambda>p. p_status p = CLOSED) ps))"
  by (simp add: calculatePerformanceMetrics_def Let_def split: prod.splits)

lemma metrics_winRate:
  "winRate (calculatePerformanceMetrics ps cs) =
   (if 0 < length (filter (\<lambda>p. p_status p = CLOSED) ps)
    then real (length (filter (\<lambda>p. 0 < p_pnl p) (filter (\<lambda>p. p_status p = CLOSED) ps)))
         / real (length (filter (\<lambda>p. p_status p = CLOSED) ps))
    else 0)"
  by (simp add: calculatePerformanceMetrics_def Let_def split: prod.splits)

lemma metrics_sharpe_no_trades:
  assumes "filter (\<lambda>p. p_status p = CLOSED) ps = []"
  shows "sharpeRatio (calculatePerformanceMetrics ps cs) = Fin 0"
  using assms by (simp add: calculatePerformanceMetrics_def Let_def js_gt_def split: prod.splits)

lemma drawdown_fold_nonneg:
  "0 \<le> fst acc \<Longrightarrow> 0 \<le> fst (foldl drawdown_step acc ps)"
proof (induction ps arbitrary: acc)
  case Nil
  then show ?case by simp
next
  case (Cons p ps)
  have "0 \<le> fst (drawdown_step acc p)"
    using Cons.prems by (cases acc) (simp add: drawdown_step_def Let_def max_def)
  then show ?case using Cons.IH by simp
qed

text \<open>
  Claim C8. The win rate lies in \<open>[0, 1]\<close> and the maximum drawdown is non-negative
  for every list of positions; with no closed position the win rate, the Sharpe ratio
  and the maximum drawdown are exactly 0.
\<close>

theorem C8_metrics_bounds:
  "0 \<le> winRate (calculatePerformanceMetrics ps cs)
   \<and> winRate (calculatePerformanceMetrics ps cs) \<le> 1
   \<and> 0 \<le> maxDrawdown (calculatePerformanceMetrics ps cs)
   \<and> (filter (\<lambda>p. p_status p = CLOSED) ps = [] \<longrightarrow>
         winRate (calculatePerformanceMetrics ps cs) = 0
       \<and> sharpeRatio (calculatePerformanceMetrics ps cs) = Fin 0
       \<and> maxDrawdown (calculatePerformanceMetrics ps cs) = 0)"
proof -
  let ?closed = "filter (\<lambda>p. p_status p = CLOSED) ps"
  have le: "length (filter (\<lambda>p. 0 < p_pnl p) ?closed) \<le> length ?closed"
    by (rule length_filter_le)
  have w0: "0 \<le> winRate (calculatePerformanceMetrics ps cs)"
    by (simp add: metrics_winRate)
  have w1: "winRate (calculatePerformanceMetrics ps cs) \<le> 1"
    using le by (simp add: metrics_winRate del: length_filter_le)
  have d0: "0 \<le> maxDrawdown (calculatePerformanceMetrics ps cs)"
    unfolding metrics_maxDrawdown by (rule drawdown_fold_nonneg) simp
  have e: "?closed = [] \<longrightarrow>
         winRate (calculatePerformanceMetrics ps cs) = 0
       \<and> sharpeRatio (calculatePerformanceMetrics ps cs) = Fin 0
       \<and> maxDrawdown (calculatePerformanceMetrics ps cs) = 0"
    by (simp add: metrics_winRate metrics_maxDrawdown metrics_sharpe_no_trades)
  show ?thesis using w0 w1 d0 e by blast
qed

theorem C8_metrics_bounds_witness:
  "filter (\<lambda>p. p_status p = CLOSED) (positions backtest_position_db) = []
   \<and> winRate (calculatePerformanceMetrics (positions backtest_position_db) []) = 0
   \<and> sharpeRatio (calculatePerformanceMetrics (positions backtest_position_db) []) = Fin 0
   \<and> maxDrawdown (calculatePerformanceMetrics (positions backtest_position_db) []) = 0"
proof -
  have h: "filter (\<lambda>p. p_status p = CLOSED) (positions backtest_position_db) = []"
    by (simp add: backtest_position_db_eq)
  show ?thesis using C8_metrics_bounds [of "positions backtest_position_db" "[]"] h by blast
qed











section \<open>The backtest loop\<close>









lemma all_closed_Nil: "all_closed []"
  by (simp add: all_closed_def)




























end
